theory Spec2Isabelle
  imports Complex_Main "HOL-Library.Multiset"
begin

section \<open>Data model (src/types.ts)\<close>

datatype AppState = SETUP | ANALYZING | GENERATING | TAKING_QUIZ | REVIEW

text \<open>The field \<open>text\<close> of \<open>Answer\<close> is written \<open>answer_text\<close>: \<open>text\<close> is a reserved word.\<close>

record Answer =
  answer_text :: string
  isCorrect :: bool
  feedback :: string

record Source =
  title :: string
  url :: string

record QuizQuestion =
  question :: string
  answers :: "Answer list"
  source :: Source

record UserAnswer =
  questionIndex :: nat
  answerIndex :: nat

section \<open>JavaScript values the services rely on\<close>

text \<open>
  A thrown value is either an \<open>Error\<close> object (any subclass: the client library's
  transport errors, \<open>SyntaxError\<close> of \<open>JSON.parse\<close>, \<open>TypeError\<close> of a property read on
  \<open>undefined\<close>), carrying its \<open>message\<close>, or some other value. \<open>err instanceof Error\<close>
  is the test for the first constructor. An awaited promise that rejects, and a \<open>throw\<close>,
  are the \<open>Inl\<close> branch of a sum.
\<close>

datatype js_thrown = JsError string | JsNonError

text \<open>\<open>Array.prototype.join\<close> on an array of strings.\<close>

fun join :: "string \<Rightarrow> string list \<Rightarrow> string" where
  "join sep [] = []"
| "join sep [x] = x"
| "join sep (x # y # ys) = x @ sep @ join sep (y # ys)"

text \<open>A template literal prints a missing (\<open>undefined\<close>) string property as \<open>undefined\<close>.\<close>

definition templateString :: "string option \<Rightarrow> string" where
  "templateString v = (case v of None \<Rightarrow> ''undefined'' | Some s \<Rightarrow> s)"

text \<open>
  \<open>${questionCount}\<close>: the decimal digits of a non-negative integer (the question count
  comes from a range input with integer steps).
\<close>

fun numberToString :: "nat \<Rightarrow> string" where
  "numberToString n =
     (if n < 10 then [char_of (48 + n)]
      else numberToString (n div 10) @ [char_of (48 + n mod 10)])"

declare numberToString.simps [simp del]

definition newline :: string where
  "newline = [CHR 0x0A]"

section \<open>The content-generation client (external collaborator)\<close>

text \<open>
  \<open>ai.models.generateContent\<close> belongs to the client library, and \<open>JSON.parse\<close> to the
  runtime: both are parameters of the service functions below. A request is the object
  literal the source builds: a model name, the parts of its single content, and one of the
  three constant \<open>config\<close> literals of the source (the topic schema, the web-search tool,
  the quiz schema). A response exposes what the source reads from it: \<open>text\<close> and
  \<open>candidates?.[0]?.groundingMetadata?.groundingChunks\<close>, every optional link of that
  chain an \<open>option\<close>. Property names the source uses in two object types are told apart
  by a prefix: \<open>web_title\<close> (\<open>chunk.web.title\<close>), \<open>response_text\<close> (\<open>response.text\<close>),
  \<open>jsonTopics\<close> and \<open>jsonIsGuide\<close> (the parsed topic object).
\<close>

record InlineData =
  data :: string
  mimeType :: string

datatype Part = InlineDataPart InlineData | TextPart string

datatype Config = TopicsSchemaConfig | GoogleSearchConfig | QuizSchemaConfig

record Request =
  model :: string
  parts :: "Part list"
  config :: Config

record Web =
  web_title :: "string option"
  uri :: "string option"

record GroundingChunk =
  web :: "Web option"

record GroundingMetadata =
  groundingChunks :: "GroundingChunk list option"

record Candidate =
  groundingMetadata :: "GroundingMetadata option"

record Response =
  response_text :: "string option"
  candidates :: "Candidate list option"

text \<open>The object the topic request's schema describes; neither property is required.\<close>

record TopicsJson =
  jsonTopics :: "string list option"
  jsonIsGuide :: "bool option"

type_synonym generateContent = "Request \<Rightarrow> js_thrown + Response"

text \<open>\<open>JSON.parse(response.text)\<close>: an \<open>undefined\<close> argument is converted to the string
  \<open>undefined\<close> before parsing.\<close>

definition JSON_parse :: "(string \<Rightarrow> js_thrown + 'a) \<Rightarrow> string option \<Rightarrow> js_thrown + 'a" where
  "JSON_parse parse t = parse (templateString t)"

section \<open>src/services/geminiService.ts\<close>

definition fileToGenerativePart :: "string \<Rightarrow> string \<Rightarrow> Part" where
  "fileToGenerativePart base64 mimeType' =
     InlineDataPart \<lparr>data = base64, mimeType = mimeType'\<rparr>"

definition notAGuideMessage :: string where
  "notAGuideMessage =
     ''The uploaded document does not appear to be a valid exam guide. Please upload a relevant file.''"

text \<open>The request of \<open>extractTopicsFromGuide\<close>: the document is its only part.\<close>

definition topicsRequest :: "string \<Rightarrow> string \<Rightarrow> Request" where
  "topicsRequest fileBase64 mimeType' =
     (let model' = ''gemini-2.5-flash'';
          parts' = [fileToGenerativePart fileBase64 mimeType']
      in \<lparr>model = model', parts = parts', config = TopicsSchemaConfig\<rparr>)"

definition extractTopicsFromGuide ::
  "generateContent \<Rightarrow> (string \<Rightarrow> js_thrown + TopicsJson) \<Rightarrow> string \<Rightarrow> string
     \<Rightarrow> js_thrown + string list" where
  "extractTopicsFromGuide generateContent parse fileBase64 mimeType' =
     (case generateContent (topicsRequest fileBase64 mimeType') of
        Inl e \<Rightarrow> Inl e
      | Inr response \<Rightarrow>
          (case JSON_parse parse (response_text response) of
             Inl e \<Rightarrow> Inl e
           | Inr jsonResponse \<Rightarrow>
               if jsonIsGuide jsonResponse \<noteq> Some True
               then Inl (JsError notAGuideMessage)
               else Inr (case jsonTopics jsonResponse of None \<Rightarrow> [] | Some ts \<Rightarrow> ts)))"

definition searchPrompt :: "string list \<Rightarrow> string" where
  "searchPrompt topics =
     ''Based on the provided exam guide, find the most recent and relevant official documentation, whitepapers, or technical guides that contain content aligning with these user-selected objectives: ''
     @ join '', '' topics @ ''.''"

text \<open>\<open>candidates?.[0]?.groundingMetadata\<close>, then \<open>groundingMetadata?.groundingChunks || []\<close>.\<close>

definition groundingChunksOf :: "Response \<Rightarrow> GroundingChunk list" where
  "groundingChunksOf searchResponse =
     (let groundingMetadata' =
            (case candidates searchResponse of
               None \<Rightarrow> None
             | Some [] \<Rightarrow> None
             | Some (c # _) \<Rightarrow> groundingMetadata c)
      in case groundingMetadata' of
           None \<Rightarrow> []
         | Some m \<Rightarrow> (case groundingChunks m of None \<Rightarrow> [] | Some cs \<Rightarrow> cs))"

text \<open>The arrow function of \<open>groundingChunks.map\<close>; reading \<open>title\<close> of a missing \<open>web\<close>
  throws a \<open>TypeError\<close>.\<close>

definition chunkLine :: "GroundingChunk \<Rightarrow> js_thrown + string" where
  \<open>chunkLine chunk =
     (case web chunk of
        None \<Rightarrow> Inl (JsError ''Cannot read properties of undefined (reading 'title')'')
      | Some w \<Rightarrow>
          Inr (''- Title: '' @ templateString (web_title w) @ '', URL: '' @ templateString (uri w)))\<close>

fun chunkLines :: "GroundingChunk list \<Rightarrow> js_thrown + string list" where
  "chunkLines [] = Inr []"
| "chunkLines (c # cs) =
     (case chunkLine c of
        Inl e \<Rightarrow> Inl e
      | Inr l \<Rightarrow> (case chunkLines cs of Inl e \<Rightarrow> Inl e | Inr ls \<Rightarrow> Inr (l # ls)))"

definition fallbackSourcesText :: string where
  "fallbackSourcesText =
     ''No external sources found. Please rely solely on the provided exam guide.''"

definition sourcesTextOf :: "GroundingChunk list \<Rightarrow> js_thrown + string" where
  "sourcesTextOf chunks =
     (if length chunks > 0
      then (case chunkLines chunks of
              Inl e \<Rightarrow> Inl e
            | Inr ls \<Rightarrow>
                Inr (''Use the following official sources as the primary reference for generating questions:''
                     @ newline @ join newline ls))
      else Inr fallbackSourcesText)"

definition generationPrompt :: "string \<Rightarrow> nat \<Rightarrow> string list \<Rightarrow> string" where
  \<open>generationPrompt sourcesText questionCount' topics =
     join newline
      [ '''',
        ''    You are a world-class exam item writer specializing in advanced technical certifications. Your task is to create a challenging, scenario-based multiple-choice quiz.'',
        ''    '',
        ''    **Source Material:**'',
        ''    1.  The primary source is the user-provided exam guide.'',
        ''    2.  Ground your questions and feedback in the following official sources discovered online:'',
        ''        '' @ sourcesText,
        '''',
        ''    **Task Details:**'',
        ''    -   Generate exactly '' @ numberToString questionCount' @ '' multiple-choice quiz questions.'',
        ''    -   The questions must test the user's ability to apply and analyze concepts related to these topics: ''
          @ join '', '' topics @ ''.'',
        ''    -   Each question must strictly adhere to the ITEM WRITING GUIDELINES below.'',
        ''    -   For each question, provide detailed feedback for **every** answer choice, explaining why it is correct or incorrect.'',
        ''    -   The feedback must be grounded in the provided sources.'',
        ''    -   Include one relevant source URL for each question from the list of official sources.'',
        '''',
        ''    **ITEM WRITING GUIDELINES:**'',
        '''',
        ''    **Question Design:**'',
        ''    - The intent of the exam item must be to discriminate between those who understand the concept and those who don't.'',
        ''    - Use the highest possible cognitive levels of Bloom's Taxonomy when constructing the question and answers (Apply, Analyze, Evaluate, Create).'',
        ''    - Use active voice, present tense, 6th-grade reading level, and clear focus.'',
        ''    - Avoid absolute modifiers, opinion-based words, content repetition, slang, idioms, and humor.'',
        ''    - Make items independent, factual, and avoid tricks, trivia, UI focus, or default behavior.'',
        ''    - Do not use the word "not" in the stem or question of any exam item.'',
        '''',
        ''    **Answer Format:**'',
        ''    - Use multiple choice format with a single absolutely correct answer.'',
        ''    - Write answer choices with parallel structure.'',
        ''    - There must be 3 plausible distractors in addition to the correct answer choice.'',
        ''    - You may never use "all of the above" or "none of the above".'',
        ''    - You cannot use true/false, matching, or ordering questions.'',
        '''',
        ''    **Verification:**'',
        ''    - You must verify the correct answer is truly accurate.'',
        ''    - You must verify the distractors, while plausible, are absolutely incorrect.'',
        ''  '' ]\<close>

text \<open>The final validation: \<open>q.answers.filter(a => a.isCorrect).length === 1\<close>.\<close>

definition exactlyOneCorrect :: "QuizQuestion \<Rightarrow> bool" where
  "exactlyOneCorrect q \<longleftrightarrow> length (filter isCorrect (answers q)) = 1"

text \<open>The requests of the two phases of \<open>generateQuizQuestions\<close>.\<close>

definition searchRequest :: "string \<Rightarrow> string \<Rightarrow> string list \<Rightarrow> Request" where
  "searchRequest fileBase64 mimeType' topics =
     \<lparr>model = ''gemini-2.5-pro'',
      parts = [fileToGenerativePart fileBase64 mimeType', TextPart (searchPrompt topics)],
      config = GoogleSearchConfig\<rparr>"

definition generationRequest ::
  "string \<Rightarrow> string \<Rightarrow> string \<Rightarrow> nat \<Rightarrow> string list \<Rightarrow> Request" where
  "generationRequest fileBase64 mimeType' sourcesText questionCount' topics =
     \<lparr>model = ''gemini-2.5-pro'',
      parts = [fileToGenerativePart fileBase64 mimeType',
               TextPart (generationPrompt sourcesText questionCount' topics)],
      config = QuizSchemaConfig\<rparr>"

definition generateQuizQuestions ::
  "generateContent \<Rightarrow> (string \<Rightarrow> js_thrown + QuizQuestion list) \<Rightarrow> string \<Rightarrow> string
     \<Rightarrow> string list \<Rightarrow> nat \<Rightarrow> js_thrown + QuizQuestion list" where
  "generateQuizQuestions generateContent parse fileBase64 mimeType' topics questionCount' =
     (case generateContent (searchRequest fileBase64 mimeType' topics) of
        Inl e \<Rightarrow> Inl e
      | Inr searchResponse \<Rightarrow>
          (case sourcesTextOf (groundingChunksOf searchResponse) of
             Inl e \<Rightarrow> Inl e
           | Inr sourcesText \<Rightarrow>
               (case generateContent
                       (generationRequest fileBase64 mimeType' sourcesText questionCount' topics) of
                  Inl e \<Rightarrow> Inl e
                | Inr questionGenResponse \<Rightarrow>
                    (case JSON_parse parse (response_text questionGenResponse) of
                       Inl e \<Rightarrow> Inl e
                     | Inr quizData' \<Rightarrow> Inr (filter exactlyOneCorrect quizData')))))"

section \<open>The application component (App.tsx)\<close>

subsection \<open>Helper functions\<close>

text \<open>
  \<open>shuffleArray\<close> copies the array and calls \<open>sort\<close> on the copy with a comparator that
  ignores its arguments and returns \<open>Math.random() - 0.5\<close>. \<open>Array.prototype.sort\<close> and
  \<open>Math.random\<close> belong to the runtime, and both are parameters. \<open>Math.random\<close> is an
  effect: the sequence of its results is \<open>rnd\<close>, and the number of calls made so far is
  passed through (\<open>rnd n\<close> is the result of call number \<open>n\<close>). A comparator takes the two
  elements and that number and returns its result and the new number; the sort takes the
  comparator, the number of calls made before it starts and the array, and returns the
  array it leaves and the number of calls made by then. Which comparisons the sort makes,
  and in what order, is the engine's choice.
\<close>

type_synonym random = "nat \<Rightarrow> real"

type_synonym 'a comparefn = "'a \<Rightarrow> 'a \<Rightarrow> nat \<Rightarrow> real \<times> nat"

type_synonym 'a array_sort = "'a comparefn \<Rightarrow> nat \<Rightarrow> 'a list \<Rightarrow> 'a list \<times> nat"

definition randomComparator :: "random \<Rightarrow> 'a comparefn" where
  "randomComparator rnd a b n = (rnd n - 0.5, Suc n)"

definition shuffleArray :: "'a array_sort \<Rightarrow> random \<Rightarrow> nat \<Rightarrow> 'a list \<Rightarrow> 'a list \<times> nat" where
  "shuffleArray arraySort rnd n array = arraySort (randomComparator rnd) n array"

text \<open>The built-ins the component calls: \<open>Array.prototype.sort\<close>, at the two element types
  it is used at, and \<open>Math.random\<close>.\<close>

record Runtime =
  sortQuestions :: "QuizQuestion array_sort"
  sortAnswers :: "Answer array_sort"
  mathRandom :: random

subsection \<open>Session state\<close>

text \<open>The state variables of \<open>App\<close>, one field per \<open>useState\<close>. The state variable \<open>file\<close> is
  written \<open>file'\<close>. Of a \<open>File\<close> the component reads \<open>name\<close> and \<open>type\<close> (\<open>file_type\<close>);
  \<open>fileData.mimeType\<close> is \<open>fileData_mimeType\<close>.\<close>

record File =
  name :: string
  file_type :: string

record FileData =
  base64 :: string
  fileData_mimeType :: string

record Session =
  appState :: AppState
  file' :: "File option"
  fileData :: "FileData option"
  topics :: "string list"
  selectedTopics :: "string list"
  questionCount :: nat
  quizData :: "QuizQuestion list"
  currentQuestionIndex :: nat
  userAnswers :: "UserAnswer list"
  error :: "string option"
  loadingMessage :: string

definition initialState :: Session where
  "initialState =
     \<lparr>appState = SETUP, file' = None, fileData = None, topics = [], selectedTopics = [],
      questionCount = 10, quizData = [], currentQuestionIndex = 0, userAnswers = [],
      error = None, loadingMessage = ''''\<rparr>"

subsection \<open>Handlers\<close>

text \<open>
  Each handler maps the state it closes over to the state after all its \<open>set...\<close> calls.
  The two asynchronous handlers also have the states they pass through while a promise is
  pending. \<open>fileToBase64\<close> wraps the browser's \<open>FileReader\<close>; its outcome is a parameter.
\<close>

definition analysisErrorMessage :: "js_thrown \<Rightarrow> string" where
  "analysisErrorMessage err =
     (case err of JsError m \<Rightarrow> m | JsNonError \<Rightarrow> ''An unknown error occurred during analysis.'')"

definition fileChangeAnalyzing :: "File \<Rightarrow> Session \<Rightarrow> Session" where
  "fileChangeAnalyzing selectedFile s =
     s\<lparr>error := None, topics := [], selectedTopics := [], file' := Some selectedFile,
       appState := ANALYZING, loadingMessage := ''Analyzing your exam guide...''\<rparr>"

definition fileChangeRead :: "File \<Rightarrow> string \<Rightarrow> Session \<Rightarrow> Session" where
  "fileChangeRead selectedFile b64 s =
     (fileChangeAnalyzing selectedFile s)
       \<lparr>fileData := Some \<lparr>base64 = b64, fileData_mimeType = file_type selectedFile\<rparr>\<rparr>"

definition fileChangeCatch :: "js_thrown \<Rightarrow> Session \<Rightarrow> Session" where
  "fileChangeCatch err s =
     s\<lparr>error := Some (analysisErrorMessage err), file' := None, fileData := None,
       appState := SETUP\<rparr>"

definition handleFileChange ::
  "generateContent \<Rightarrow> (string \<Rightarrow> js_thrown + TopicsJson) \<Rightarrow> (File \<Rightarrow> js_thrown + string)
     \<Rightarrow> File option \<Rightarrow> Session \<Rightarrow> Session" where
  "handleFileChange generateContent parse fileToBase64 files0 s =
     (case files0 of
        None \<Rightarrow> s
      | Some selectedFile \<Rightarrow>
          (case fileToBase64 selectedFile of
             Inl err \<Rightarrow> fileChangeCatch err (fileChangeAnalyzing selectedFile s)
           | Inr b64 \<Rightarrow>
               (case extractTopicsFromGuide generateContent parse b64 (file_type selectedFile) of
                  Inl err \<Rightarrow> fileChangeCatch err (fileChangeRead selectedFile b64 s)
                | Inr extractedTopics \<Rightarrow>
                    if length extractedTopics = 0
                    then (fileChangeRead selectedFile b64 s)
                           \<lparr>error := Some ''Could not find any topics in the document. Please try a different file.'',
                            appState := SETUP, file' := None, fileData := None\<rparr>
                    else (fileChangeRead selectedFile b64 s)
                           \<lparr>topics := extractedTopics, selectedTopics := extractedTopics,
                            appState := SETUP\<rparr>)))"

definition handleTopicToggle :: "string \<Rightarrow> Session \<Rightarrow> Session" where
  "handleTopicToggle topic s =
     s\<lparr>selectedTopics :=
          (if topic \<in> set (selectedTopics s)
           then filter (\<lambda>t. t \<noteq> topic) (selectedTopics s)
           else selectedTopics s @ [topic])\<rparr>"

definition setQuestionCount :: "nat \<Rightarrow> Session \<Rightarrow> Session" where
  "setQuestionCount n s = s\<lparr>questionCount := n\<rparr>"

text \<open>\<open>shuffleArray(questions).map(q => ({...q, answers: shuffleArray(q.answers)}))\<close>: the
  question list is shuffled first, then the answers of each question in the new order.\<close>

fun shuffleAnswers :: "Runtime \<Rightarrow> nat \<Rightarrow> QuizQuestion list \<Rightarrow> QuizQuestion list" where
  "shuffleAnswers rt n [] = []"
| "shuffleAnswers rt n (q # qs) =
     (case shuffleArray (sortAnswers rt) (mathRandom rt) n (answers q) of
        (as, n') \<Rightarrow> q\<lparr>answers := as\<rparr> # shuffleAnswers rt n' qs)"

definition randomizedQuestions :: "Runtime \<Rightarrow> QuizQuestion list \<Rightarrow> QuizQuestion list" where
  "randomizedQuestions rt questions =
     (case shuffleArray (sortQuestions rt) (mathRandom rt) 0 questions of
        (shuffled, n) \<Rightarrow> shuffleAnswers rt n shuffled)"

definition generationErrorMessage :: "js_thrown \<Rightarrow> string" where
  "generationErrorMessage err =
     (case err of JsError m \<Rightarrow> m | JsNonError \<Rightarrow> ''Failed to generate quiz.'')"

definition generateQuizPending :: "Session \<Rightarrow> Session" where
  "generateQuizPending s =
     s\<lparr>error := None, appState := GENERATING,
       loadingMessage := ''Generating your custom quiz... This may take a moment.''\<rparr>"

definition handleGenerateQuiz ::
  "generateContent \<Rightarrow> (string \<Rightarrow> js_thrown + QuizQuestion list) \<Rightarrow> Runtime
     \<Rightarrow> Session \<Rightarrow> Session" where
  "handleGenerateQuiz generateContent parse rt s =
     (case fileData s of
        None \<Rightarrow> s\<lparr>error := Some ''Please upload a guide and select at least one topic.''\<rparr>
      | Some fd \<Rightarrow>
          if length (selectedTopics s) = 0
          then s\<lparr>error := Some ''Please upload a guide and select at least one topic.''\<rparr>
          else
            (case generateQuizQuestions generateContent parse (base64 fd) (fileData_mimeType fd)
                    (selectedTopics s) (questionCount s) of
               Inr questions \<Rightarrow>
                 (generateQuizPending s)
                   \<lparr>quizData := randomizedQuestions rt questions, currentQuestionIndex := 0,
                    userAnswers := [], appState := TAKING_QUIZ\<rparr>
             | Inl err \<Rightarrow>
                 (generateQuizPending s)
                   \<lparr>error := Some (generationErrorMessage err), appState := SETUP\<rparr>))"

definition handleAnswerSelect :: "nat \<Rightarrow> nat \<Rightarrow> Session \<Rightarrow> Session" where
  "handleAnswerSelect qi ai s =
     s\<lparr>userAnswers :=
          (case find (\<lambda>a. questionIndex a = qi) (userAnswers s) of
             Some existing \<Rightarrow>
               map (\<lambda>a. if questionIndex a = qi then a\<lparr>answerIndex := ai\<rparr> else a) (userAnswers s)
           | None \<Rightarrow> userAnswers s @ [\<lparr>questionIndex = qi, answerIndex = ai\<rparr>])\<rparr>"

text \<open>\<open>quizData.length - 1\<close> is \<open>-1\<close> for an empty quiz, so the comparison is made on
  integers.\<close>

definition handleNextQuestion :: "Session \<Rightarrow> Session" where
  "handleNextQuestion s =
     (if int (currentQuestionIndex s) < int (length (quizData s)) - 1
      then s\<lparr>currentQuestionIndex := currentQuestionIndex s + 1\<rparr>
      else s\<lparr>appState := REVIEW\<rparr>)"

definition handleStartOver :: "Session \<Rightarrow> Session" where
  "handleStartOver s =
     s\<lparr>appState := SETUP, file' := None, fileData := None, topics := [], selectedTopics := [],
       quizData := [], userAnswers := [], error := None\<rparr>"

text \<open>
  \<open>score\<close>: the \<open>reduce\<close> over \<open>userAnswers\<close>, from \<open>0\<close>. An index past the end of an array
  reads \<open>undefined\<close>, and the property read that follows throws a \<open>TypeError\<close>.
\<close>

fun scoreReduce :: "QuizQuestion list \<Rightarrow> nat \<Rightarrow> UserAnswer list \<Rightarrow> js_thrown + nat" where
  \<open>scoreReduce qd correctCount [] = Inr correctCount\<close>
| \<open>scoreReduce qd correctCount (userAnswer # rest) =
     (if questionIndex userAnswer < length qd
      then (let question' = qd ! questionIndex userAnswer in
            if answerIndex userAnswer < length (answers question')
            then (let answer = answers question' ! answerIndex userAnswer in
                  scoreReduce qd (if isCorrect answer then correctCount + 1 else correctCount) rest)
            else Inl (JsError ''Cannot read properties of undefined (reading 'isCorrect')''))
      else Inl (JsError ''Cannot read properties of undefined (reading 'answers')''))\<close>

definition score :: "Session \<Rightarrow> js_thrown + nat" where
  "score s = scoreReduce (quizData s) 0 (userAnswers s)"

subsection \<open>The events the rendered interface can deliver\<close>

text \<open>
  \<open>renderContent\<close> shows one screen per \<open>appState\<close>, and a handler runs only from a control
  of the screen shown:
  \<^item> \<open>renderSetup\<close>: the file input (\<open>handleFileChange\<close>); and, when \<open>topics\<close> is not empty, a
    toggle for each topic of \<open>topics\<close>, the range input (5 to 50) and the button for
    \<open>handleGenerateQuiz\<close>, disabled while \<open>selectedTopics\<close> is empty;
  \<^item> \<open>renderLoading\<close> (\<open>ANALYZING\<close>, \<open>GENERATING\<close>): no control;
  \<^item> \<open>renderQuiz\<close>: reads \<open>quizData[currentQuestionIndex].question\<close>, so it renders only when
    that question exists; one button per answer of it, calling
    \<open>handleAnswerSelect(currentQuestionIndex, index)\<close>; and the button for
    \<open>handleNextQuestion\<close>, disabled until the current question has a user answer;
  \<^item> \<open>renderReview\<close>: the button for \<open>handleStartOver\<close>.
  The states an asynchronous handler passes through are reachable as well.
\<close>

inductive reachable :: "Session \<Rightarrow> bool" where
  r_init: "reachable initialState"
| r_fileChange:
    "reachable s \<Longrightarrow> appState s = SETUP \<Longrightarrow>
     reachable (handleFileChange generateContent parse fileToBase64 files0 s)"
| r_fileChangeAnalyzing:
    "reachable s \<Longrightarrow> appState s = SETUP \<Longrightarrow> reachable (fileChangeAnalyzing selectedFile s)"
| r_fileChangeRead:
    "reachable s \<Longrightarrow> appState s = SETUP \<Longrightarrow> reachable (fileChangeRead selectedFile b64 s)"
| r_topicToggle:
    "reachable s \<Longrightarrow> appState s = SETUP \<Longrightarrow> topic \<in> set (topics s) \<Longrightarrow>
     reachable (handleTopicToggle topic s)"
| r_questionCount:
    "reachable s \<Longrightarrow> appState s = SETUP \<Longrightarrow> topics s \<noteq> [] \<Longrightarrow> 5 \<le> n \<Longrightarrow> n \<le> 50 \<Longrightarrow>
     reachable (setQuestionCount n s)"
| r_generateQuiz:
    "reachable s \<Longrightarrow> appState s = SETUP \<Longrightarrow> topics s \<noteq> [] \<Longrightarrow> selectedTopics s \<noteq> [] \<Longrightarrow>
     reachable (handleGenerateQuiz generateContent parseQuiz rt s)"
| r_generateQuizPending:
    "reachable s \<Longrightarrow> appState s = SETUP \<Longrightarrow> topics s \<noteq> [] \<Longrightarrow> selectedTopics s \<noteq> [] \<Longrightarrow>
     fileData s \<noteq> None \<Longrightarrow> reachable (generateQuizPending s)"
| r_answerSelect:
    "reachable s \<Longrightarrow> appState s = TAKING_QUIZ \<Longrightarrow>
     currentQuestionIndex s < length (quizData s) \<Longrightarrow>
     index < length (answers (quizData s ! currentQuestionIndex s)) \<Longrightarrow>
     reachable (handleAnswerSelect (currentQuestionIndex s) index s)"
| r_nextQuestion:
    "reachable s \<Longrightarrow> appState s = TAKING_QUIZ \<Longrightarrow>
     currentQuestionIndex s < length (quizData s) \<Longrightarrow>
     find (\<lambda>a. questionIndex a = currentQuestionIndex s) (userAnswers s) \<noteq> None \<Longrightarrow>
     reachable (handleNextQuestion s)"
| r_startOver:
    "reachable s \<Longrightarrow> appState s = REVIEW \<Longrightarrow> reachable (handleStartOver s)"

section \<open>The bounds the score computation relies on\<close>

text \<open>Every user answer names a question of the quiz and an answer of that question.\<close>

definition answersInBounds :: "QuizQuestion list \<Rightarrow> UserAnswer list \<Rightarrow> bool" where
  "answersInBounds qd uas \<longleftrightarrow>
     (\<forall>ua \<in> set uas. questionIndex ua < length qd
        \<and> answerIndex ua < length (answers (qd ! questionIndex ua)))"

section \<open>Concrete inputs\<close>

text \<open>Inputs for the closed instances stated with the theorems: questions with four
  labelled answers, a client that answers each of the three requests, and a short
  session.\<close>

definition exampleQuestion :: "string \<Rightarrow> (string \<times> bool) list \<Rightarrow> QuizQuestion" where
  "exampleQuestion stem choices =
     \<lparr>question = stem,
      answers = map (\<lambda>(t, c). \<lparr>answer_text = t, isCorrect = c, feedback = ''See the guide.''\<rparr>) choices,
      source = \<lparr>title = ''Official documentation'', url = ''https://example.com/docs''\<rparr>\<rparr>"

definition validQuestion :: "string \<Rightarrow> QuizQuestion" where
  "validQuestion stem =
     exampleQuestion stem [(''A'', False), (''B'', True), (''C'', False), (''D'', False)]"

definition twoCorrectQuestion :: "string \<Rightarrow> QuizQuestion" where
  "twoCorrectQuestion stem =
     exampleQuestion stem [(''A'', True), (''B'', True), (''C'', False), (''D'', False)]"

definition exampleFile :: File where
  "exampleFile = \<lparr>name = ''guide.pdf'', file_type = ''application/pdf''\<rparr>"

definition exampleFileToBase64 :: "File \<Rightarrow> js_thrown + string" where
  "exampleFileToBase64 f = Inr ''JVBERi0=''"

text \<open>The search response holds a candidate without grounding metadata: zero citations.\<close>

definition topicsResponse :: Response where
  "topicsResponse = \<lparr>response_text = Some ''topics'', candidates = None\<rparr>"

definition searchResponseNoSources :: Response where
  "searchResponseNoSources =
     \<lparr>response_text = Some ''sources'', candidates = Some [\<lparr>groundingMetadata = None\<rparr>]\<rparr>"

definition quizResponse :: Response where
  "quizResponse = \<lparr>response_text = Some ''quiz'', candidates = None\<rparr>"

definition exampleClient :: generateContent where
  "exampleClient request =
     (case config request of
        TopicsSchemaConfig \<Rightarrow> Inr topicsResponse
      | GoogleSearchConfig \<Rightarrow> Inr searchResponseNoSources
      | QuizSchemaConfig \<Rightarrow> Inr quizResponse)"

text \<open>A transport failure, and a response text that does not parse.\<close>

definition failingClient :: generateContent where
  "failingClient request = Inl (JsError ''fetch failed'')"

definition failingParse :: "string \<Rightarrow> js_thrown + QuizQuestion list" where
  "failingParse t = Inl (JsError ''Unexpected end of JSON input'')"

definition guideJson :: TopicsJson where
  "guideJson = \<lparr>jsonTopics = Some [''Networking'', ''Security''], jsonIsGuide = Some True\<rparr>"

definition notGuideJson :: TopicsJson where
  "notGuideJson = \<lparr>jsonTopics = Some [''Recipes''], jsonIsGuide = Some False\<rparr>"

definition parseGuide :: "string \<Rightarrow> js_thrown + TopicsJson" where
  "parseGuide t = Inr guideJson"

definition parseNotGuide :: "string \<Rightarrow> js_thrown + TopicsJson" where
  "parseNotGuide t = Inr notGuideJson"

definition tenReturned :: "QuizQuestion list" where
  "tenReturned =
     [validQuestion ''Q1'', validQuestion ''Q2'', twoCorrectQuestion ''Q3'', validQuestion ''Q4'',
      validQuestion ''Q5'', validQuestion ''Q6'', twoCorrectQuestion ''Q7'', validQuestion ''Q8'',
      validQuestion ''Q9'', validQuestion ''Q10'']"

definition sixReturned :: "QuizQuestion list" where
  "sixReturned =
     [validQuestion ''Q1'', validQuestion ''Q2'', validQuestion ''Q3'', validQuestion ''Q4'',
      validQuestion ''Q5'', validQuestion ''Q6'']"

definition threeReturned :: "QuizQuestion list" where
  "threeReturned = [validQuestion ''Q1'', twoCorrectQuestion ''Q2'', validQuestion ''Q3'']"

definition parseTen :: "string \<Rightarrow> js_thrown + QuizQuestion list" where
  "parseTen t = Inr tenReturned"

definition parseSix :: "string \<Rightarrow> js_thrown + QuizQuestion list" where
  "parseSix t = Inr sixReturned"

definition parseThree :: "string \<Rightarrow> js_thrown + QuizQuestion list" where
  "parseThree t = Inr threeReturned"

definition exampleRandom :: random where
  "exampleRandom n = (if n mod 3 = 0 then 0.75 else 0.25)"

text \<open>One sort a runtime may have: an insertion sort, in which each element in turn moves
  left past the elements for which the comparator returns a positive number.
  \<open>insertionPlace\<close> holds the part already placed in reverse order.\<close>

fun insertionPlace :: "'a comparefn \<Rightarrow> nat \<Rightarrow> 'a \<Rightarrow> 'a list \<Rightarrow> 'a list \<times> nat" where
  "insertionPlace comparefn n element [] = ([element], n)"
| "insertionPlace comparefn n element (tmp # placed) =
     (if fst (comparefn tmp element n) > 0
      then (case insertionPlace comparefn (snd (comparefn tmp element n)) element placed of
              (r, n') \<Rightarrow> (tmp # r, n'))
      else (element # tmp # placed, snd (comparefn tmp element n)))"

fun insertionLoop :: "'a comparefn \<Rightarrow> nat \<Rightarrow> 'a list \<Rightarrow> 'a list \<Rightarrow> 'a list \<times> nat" where
  "insertionLoop comparefn n placed [] = (rev placed, n)"
| "insertionLoop comparefn n placed (element # rest) =
     (case insertionPlace comparefn n element placed of
        (placed', n') \<Rightarrow> insertionLoop comparefn n' placed' rest)"

definition insertionSort :: "'a array_sort" where
  "insertionSort comparefn n array = insertionLoop comparefn n [] array"

definition exampleRuntime :: Runtime where
  "exampleRuntime =
     \<lparr>sortQuestions = insertionSort, sortAnswers = insertionSort, mathRandom = exampleRandom\<rparr>"

text \<open>A session: a guide is uploaded, five questions are asked for, the model returns
  three of which two are valid, both are answered.\<close>

definition readyState :: Session where
  "readyState =
     handleFileChange exampleClient parseGuide exampleFileToBase64 (Some exampleFile) initialState"

definition countState :: Session where
  "countState = setQuestionCount 5 readyState"

definition quizState :: Session where
  "quizState = handleGenerateQuiz exampleClient parseThree exampleRuntime countState"

definition firstAnswered :: Session where
  "firstAnswered = handleAnswerSelect 0 1 quizState"

definition secondQuestion :: Session where
  "secondQuestion = handleNextQuestion firstAnswered"

definition secondAnswered :: Session where
  "secondAnswered = handleAnswerSelect 1 3 secondQuestion"

definition reviewState :: Session where
  "reviewState = handleNextQuestion secondAnswered"

section \<open>Facts shared by the theorems\<close>

subsection \<open>The two services\<close>

lemma generateQuizQuestions_success:
  assumes "generateContent (searchRequest fileBase64 mimeType' ts) = Inr searchResponse"
    and "sourcesTextOf (groundingChunksOf searchResponse) = Inr sourcesText"
    and "generateContent (generationRequest fileBase64 mimeType' sourcesText n ts)
           = Inr questionGenResponse"
    and "JSON_parse parse (response_text questionGenResponse) = Inr returned"
  shows "generateQuizQuestions generateContent parse fileBase64 mimeType' ts n
           = Inr (filter exactlyOneCorrect returned)"
  using assms by (simp add: generateQuizQuestions_def)

lemma sourcesTextOf_Nil: "sourcesTextOf [] = Inr fallbackSourcesText"
  by (simp add: sourcesTextOf_def)

lemma join_Cons: "ys \<noteq> [] \<Longrightarrow> join sep (x # ys) = x @ sep @ join sep ys"
  by (cases ys) simp_all

lemma join_adjacent:
  assumes "xs = before @ x # y # z # after"
  shows "\<exists>pre post. join sep xs = pre @ x @ sep @ y @ sep @ post"
  unfolding assms
proof (induction before)
  case Nil
  have "join sep ([] @ x # y # z # after) = [] @ x @ sep @ y @ sep @ join sep (z # after)"
    by simp
  then show ?case by blast
next
  case (Cons b before)
  obtain pre post
    where "join sep (before @ x # y # z # after) = pre @ x @ sep @ y @ sep @ post"
    using Cons.IH by blast
  then have "join sep ((b # before) @ x # y # z # after)
      = (b @ sep @ pre) @ x @ sep @ y @ sep @ post"
    by (simp add: join_Cons)
  then show ?case by blast
qed

lemma join_adjacent_nth:
  assumes "i + 2 < length xs" and "xs ! i = x" and "xs ! Suc i = y"
  shows "\<exists>pre post. join sep xs = pre @ x @ sep @ y @ sep @ post"
proof -
  have "drop (Suc (Suc i)) xs = xs ! Suc (Suc i) # drop (Suc (Suc (Suc i))) xs"
    using assms(1) by (simp add: Cons_nth_drop_Suc)
  moreover have "drop (Suc i) xs = xs ! Suc i # drop (Suc (Suc i)) xs"
    using assms(1) by (simp add: Cons_nth_drop_Suc)
  moreover have "xs = take i xs @ xs ! i # drop (Suc i) xs"
    using assms(1) by (simp add: id_take_nth_drop[symmetric])
  ultimately have "xs = take i xs @ x # y # xs ! Suc (Suc i) # drop (Suc (Suc (Suc i))) xs"
    using assms(2,3) by simp
  then show ?thesis by (rule join_adjacent)
qed

lemma generationPrompt_sources:
  "\<exists>pre post. generationPrompt sourcesText n ts
     = pre
       @ ''    2.  Ground your questions and feedback in the following official sources discovered online:''
       @ newline @ (''        '' @ sourcesText) @ newline @ post"
  unfolding generationPrompt_def
  by (rule join_adjacent_nth[where i = 5]) simp_all

subsection \<open>Shuffling with a sort that rearranges\<close>



lemma handleGenerateQuiz_success:
  assumes "fileData s = Some fd" and "selectedTopics s \<noteq> []"
    and "generateQuizQuestions generateContent parse (base64 fd) (fileData_mimeType fd)
           (selectedTopics s) (questionCount s) = Inr questions"
  shows "handleGenerateQuiz generateContent parse rt s =
           (generateQuizPending s)
             \<lparr>quizData := randomizedQuestions rt questions, currentQuestionIndex := 0,
              userAnswers := [], appState := TAKING_QUIZ\<rparr>"
  using assms by (simp add: handleGenerateQuiz_def)

subsection \<open>User answers\<close>

lemma find_questionIndex_None:
  "find (\<lambda>a. questionIndex a = qi) uas = None \<longleftrightarrow> qi \<notin> questionIndex ` set uas"
  by (auto simp: find_None_iff)

lemma userAnswers_handleAnswerSelect:
  "userAnswers (handleAnswerSelect qi ai s) =
     (if qi \<in> questionIndex ` set (userAnswers s)
      then map (\<lambda>a. if questionIndex a = qi then a\<lparr>answerIndex := ai\<rparr> else a) (userAnswers s)
      else userAnswers s @ [\<lparr>questionIndex = qi, answerIndex = ai\<rparr>])"
  using find_questionIndex_None[of qi "userAnswers s"]
  by (auto simp: handleAnswerSelect_def split: option.splits)

lemma map_questionIndex_update:
  "map (questionIndex \<circ> (\<lambda>a. if questionIndex a = qi then a\<lparr>answerIndex := ai\<rparr> else a)) uas
     = map questionIndex uas"
  by (induction uas) auto

lemma handleAnswerSelect_distinct:
  assumes "distinct (map questionIndex (userAnswers s))"
  shows "distinct (map questionIndex (userAnswers (handleAnswerSelect qi ai s)))"
  using assms by (auto simp: userAnswers_handleAnswerSelect map_questionIndex_update)

lemma update_twice:
  "map (\<lambda>a. if questionIndex a = qi then a\<lparr>answerIndex := ai'\<rparr> else a)
     (map (\<lambda>a. if questionIndex a = qi then a\<lparr>answerIndex := ai\<rparr> else a) uas)
   = map (\<lambda>a. if questionIndex a = qi then a\<lparr>answerIndex := ai'\<rparr> else a) uas"
  by (induction uas) auto

lemma update_absent:
  assumes "qi \<notin> questionIndex ` set uas"
  shows "map (\<lambda>a. if questionIndex a = qi then a\<lparr>answerIndex := ai\<rparr> else a) uas = uas"
  using assms by (induction uas) auto

lemma handleAnswerSelect_present:
  "qi \<in> questionIndex ` set (userAnswers (handleAnswerSelect qi ai s))"
proof (cases "qi \<in> questionIndex ` set (userAnswers s)")
  case True
  then have "qi \<in> set (map questionIndex (userAnswers (handleAnswerSelect qi ai s)))"
    by (simp add: userAnswers_handleAnswerSelect map_questionIndex_update)
  then show ?thesis by simp
next
  case False
  then show ?thesis by (simp add: userAnswers_handleAnswerSelect)
qed

lemma handleAnswerSelect_again:
  "userAnswers (handleAnswerSelect qi ai' (handleAnswerSelect qi ai s)) =
     map (\<lambda>a. if questionIndex a = qi then a\<lparr>answerIndex := ai'\<rparr> else a)
       (userAnswers (handleAnswerSelect qi ai s))"
  using handleAnswerSelect_present[of qi ai s]
  by (simp add: userAnswers_handleAnswerSelect[of qi ai' "handleAnswerSelect qi ai s"])

lemma handleAnswerSelect_idem:
  "handleAnswerSelect qi ai (handleAnswerSelect qi ai s) = handleAnswerSelect qi ai s"
proof -
  have "userAnswers (handleAnswerSelect qi ai (handleAnswerSelect qi ai s))
          = userAnswers (handleAnswerSelect qi ai s)"
  proof (cases "qi \<in> questionIndex ` set (userAnswers s)")
    case True
    then show ?thesis
      by (simp add: handleAnswerSelect_again userAnswers_handleAnswerSelect[of qi ai s] update_twice)
  next
    case False
    then show ?thesis
      by (simp add: handleAnswerSelect_again userAnswers_handleAnswerSelect[of qi ai s] update_absent)
  qed
  moreover have "handleAnswerSelect qi ai (handleAnswerSelect qi ai s)
      = s\<lparr>userAnswers := userAnswers (handleAnswerSelect qi ai (handleAnswerSelect qi ai s))\<rparr>"
    by (simp add: handleAnswerSelect_def)
  moreover have "handleAnswerSelect qi ai s = s\<lparr>userAnswers := userAnswers (handleAnswerSelect qi ai s)\<rparr>"
    by (simp add: handleAnswerSelect_def)
  ultimately show ?thesis by metis
qed

subsection \<open>The invariant of the reachable states\<close>

lemma handleAnswerSelect_inBounds:
  assumes "answersInBounds (quizData s) (userAnswers s)"
    and "qi < length (quizData s)" and "ai < length (answers (quizData s ! qi))"
  shows "answersInBounds (quizData (handleAnswerSelect qi ai s))
           (userAnswers (handleAnswerSelect qi ai s))"
proof -
  have qd: "quizData (handleAnswerSelect qi ai s) = quizData s"
    by (simp add: handleAnswerSelect_def)
  show ?thesis
    using assms unfolding qd userAnswers_handleAnswerSelect answersInBounds_def
    by auto
qed

lemma handleFileChange_quiz:
  "quizData (handleFileChange gc parse f2b files0 s) = quizData s
   \<and> userAnswers (handleFileChange gc parse f2b files0 s) = userAnswers s"
  by (simp add: handleFileChange_def fileChangeCatch_def fileChangeRead_def fileChangeAnalyzing_def
      split: option.splits sum.splits)

lemma handleGenerateQuiz_quiz:
  "userAnswers (handleGenerateQuiz gc parse rt s) = []
   \<or> (quizData (handleGenerateQuiz gc parse rt s) = quizData s
      \<and> userAnswers (handleGenerateQuiz gc parse rt s) = userAnswers s)"
  by (simp add: handleGenerateQuiz_def generateQuizPending_def split: option.splits sum.splits)

lemma reachable_invariant:
  assumes "reachable s"
  shows "answersInBounds (quizData s) (userAnswers s)
         \<and> distinct (map questionIndex (userAnswers s))"
  using assms
proof (induction rule: reachable.induct)
  case r_init
  then show ?case by (simp add: initialState_def answersInBounds_def)
next
  case (r_fileChange s generateContent parse fileToBase64 files0)
  then show ?case
    using handleFileChange_quiz[of generateContent parse fileToBase64 files0 s] by simp
next
  case (r_fileChangeAnalyzing s selectedFile)
  then show ?case by (simp add: fileChangeAnalyzing_def)
next
  case (r_fileChangeRead s selectedFile b64)
  then show ?case by (simp add: fileChangeRead_def fileChangeAnalyzing_def)
next
  case (r_topicToggle s topic)
  then show ?case by (simp add: handleTopicToggle_def)
next
  case (r_questionCount s n)
  then show ?case by (simp add: setQuestionCount_def)
next
  case (r_generateQuiz s generateContent parseQuiz rt)
  then show ?case
    using handleGenerateQuiz_quiz[of generateContent parseQuiz rt s]
    by (auto simp: answersInBounds_def)
next
  case (r_generateQuizPending s)
  then show ?case by (simp add: generateQuizPending_def)
next
  case (r_answerSelect s index)
  then show ?case
    using handleAnswerSelect_inBounds[of s "currentQuestionIndex s" index]
      handleAnswerSelect_distinct[of s "currentQuestionIndex s" index] by simp
next
  case (r_nextQuestion s)
  then show ?case by (simp add: handleNextQuestion_def)
next
  case (r_startOver s)
  then show ?case by (simp add: handleStartOver_def answersInBounds_def)
qed

lemma scoreReduce_inBounds:
  assumes "answersInBounds qd uas"
  shows "scoreReduce qd c uas =
     Inr (c + length (filter (\<lambda>ua. isCorrect (answers (qd ! questionIndex ua) ! answerIndex ua)) uas))"
  using assms
  by (induction uas arbitrary: c) (auto simp: answersInBounds_def Let_def)

lemma distinct_indices_length:
  assumes "distinct (map questionIndex uas)" and "\<forall>ua \<in> set uas. questionIndex ua < n"
  shows "length uas \<le> n"
proof -
  have "length uas = card (set (map questionIndex uas))"
    using assms(1) distinct_card[of "map questionIndex uas"] by simp
  also have "\<dots> \<le> card {..<n}"
    using assms(2) by (intro card_mono) auto
  finally show ?thesis by simp
qed

subsection \<open>Answering and advancing through a quiz\<close>

lemma answer_then_next:
  assumes "appState st = TAKING_QUIZ"
  shows "quizData (handleNextQuestion (handleAnswerSelect (currentQuestionIndex st) ai st))
           = quizData st
    \<and> (currentQuestionIndex st + 1 < length (quizData st) \<longrightarrow>
         appState (handleNextQuestion (handleAnswerSelect (currentQuestionIndex st) ai st))
           = TAKING_QUIZ
         \<and> currentQuestionIndex (handleNextQuestion (handleAnswerSelect (currentQuestionIndex st) ai st))
           = currentQuestionIndex st + 1)
    \<and> (currentQuestionIndex st + 1 = length (quizData st) \<longrightarrow>
         appState (handleNextQuestion (handleAnswerSelect (currentQuestionIndex st) ai st))
           = REVIEW
         \<and> currentQuestionIndex (handleNextQuestion (handleAnswerSelect (currentQuestionIndex st) ai st))
           = currentQuestionIndex st)"
  using assms by (auto simp: handleNextQuestion_def handleAnswerSelect_def)

lemma quiz_run:
  assumes "appState s = TAKING_QUIZ" and "currentQuestionIndex s = 0"
    and "length choices \<le> length (quizData s)" and "quizData s \<noteq> []"
  shows "quizData (fold (\<lambda>ai st. handleNextQuestion (handleAnswerSelect (currentQuestionIndex st) ai st)) choices s)
           = quizData s
    \<and> appState (fold (\<lambda>ai st. handleNextQuestion (handleAnswerSelect (currentQuestionIndex st) ai st)) choices s)
        = (if length choices = length (quizData s) then REVIEW else TAKING_QUIZ)
    \<and> currentQuestionIndex (fold (\<lambda>ai st. handleNextQuestion (handleAnswerSelect (currentQuestionIndex st) ai st)) choices s)
        = min (length choices) (length (quizData s) - 1)"
  using assms(3)
proof (induction choices rule: rev_induct)
  case Nil
  then show ?case using assms(1,2,4) by auto
next
  case (snoc ai choices)
  let ?st = "fold (\<lambda>ai st. handleNextQuestion (handleAnswerSelect (currentQuestionIndex st) ai st)) choices s"
  have len: "length choices < length (quizData s)" using snoc.prems by simp
  then have ih: "quizData ?st = quizData s" "appState ?st = TAKING_QUIZ"
    "currentQuestionIndex ?st = length choices"
    using snoc.IH by auto
  show ?case
  proof (cases "length choices + 1 < length (quizData s)")
    case True
    then show ?thesis using answer_then_next[OF ih(2), of ai] ih by auto
  next
    case False
    then have "length choices + 1 = length (quizData s)" using len by simp
    then show ?thesis using answer_then_next[OF ih(2), of ai] ih by auto
  qed
qed

subsection \<open>The concrete inputs, evaluated\<close>

lemma validQuestion_one: "exactlyOneCorrect (validQuestion stem)"
  by (simp add: exactlyOneCorrect_def validQuestion_def exampleQuestion_def)

lemma twoCorrectQuestion_two: "\<not> exactlyOneCorrect (twoCorrectQuestion stem)"
  by (simp add: exactlyOneCorrect_def twoCorrectQuestion_def exampleQuestion_def)

lemma exampleClient_requests:
  "exampleClient (topicsRequest b m) = Inr topicsResponse"
  "exampleClient (searchRequest b m ts) = Inr searchResponseNoSources"
  "exampleClient (generationRequest b m src n ts) = Inr quizResponse"
  by (simp_all add: exampleClient_def topicsRequest_def searchRequest_def generationRequest_def)

lemma noSources: "groundingChunksOf searchResponseNoSources = []"
  by (simp add: groundingChunksOf_def searchResponseNoSources_def)

lemma parse_quizResponse:
  "JSON_parse parseTen (response_text quizResponse) = Inr tenReturned"
  "JSON_parse parseSix (response_text quizResponse) = Inr sixReturned"
  "JSON_parse parseThree (response_text quizResponse) = Inr threeReturned"
  "JSON_parse failingParse (response_text quizResponse) = Inl (JsError ''Unexpected end of JSON input'')"
  by (simp_all add: JSON_parse_def parseTen_def parseSix_def parseThree_def failingParse_def)

lemma parse_topicsResponse:
  "JSON_parse parseGuide (response_text topicsResponse) = Inr guideJson"
  "JSON_parse parseNotGuide (response_text topicsResponse) = Inr notGuideJson"
  by (simp_all add: JSON_parse_def parseGuide_def parseNotGuide_def)

lemma readyState_eq:
  "readyState =
     \<lparr>appState = SETUP, file' = Some exampleFile,
      fileData = Some \<lparr>base64 = ''JVBERi0='', fileData_mimeType = ''application/pdf''\<rparr>,
      topics = [''Networking'', ''Security''], selectedTopics = [''Networking'', ''Security''],
      questionCount = 10, quizData = [], currentQuestionIndex = 0, userAnswers = [],
      error = None, loadingMessage = ''Analyzing your exam guide...''\<rparr>"
  by (simp add: readyState_def handleFileChange_def exampleFileToBase64_def
      extractTopicsFromGuide_def exampleClient_requests parse_topicsResponse guideJson_def
      fileChangeRead_def fileChangeAnalyzing_def initialState_def exampleFile_def)

lemma countState_eq:
  "countState =
     \<lparr>appState = SETUP, file' = Some exampleFile,
      fileData = Some \<lparr>base64 = ''JVBERi0='', fileData_mimeType = ''application/pdf''\<rparr>,
      topics = [''Networking'', ''Security''], selectedTopics = [''Networking'', ''Security''],
      questionCount = 5, quizData = [], currentQuestionIndex = 0, userAnswers = [],
      error = None, loadingMessage = ''Analyzing your exam guide...''\<rparr>"
  by (simp add: countState_def setQuestionCount_def readyState_eq)

lemma generate_three:
  "generateQuizQuestions exampleClient parseThree b m ts n
     = Inr [validQuestion ''Q1'', validQuestion ''Q3'']"
  using generateQuizQuestions_success[of exampleClient b m ts searchResponseNoSources
      fallbackSourcesText n quizResponse parseThree threeReturned]
  by (simp add: exampleClient_requests noSources sourcesTextOf_Nil parse_quizResponse
      threeReturned_def validQuestion_one twoCorrectQuestion_two)




lemma randomized_two:
  "randomizedQuestions exampleRuntime [validQuestion ''Q1'', validQuestion ''Q3''] =
     [exampleQuestion ''Q3'' [(''A'', False), (''B'', True), (''D'', False), (''C'', False)],
      exampleQuestion ''Q1'' [(''A'', False), (''C'', False), (''B'', True), (''D'', False)]]"
  by (simp add: randomizedQuestions_def shuffleArray_def randomComparator_def exampleRandom_def
      exampleRuntime_def insertionSort_def validQuestion_def exampleQuestion_def)

lemma quizState_eq:
  "quizState =
     \<lparr>appState = TAKING_QUIZ, file' = Some exampleFile,
      fileData = Some \<lparr>base64 = ''JVBERi0='', fileData_mimeType = ''application/pdf''\<rparr>,
      topics = [''Networking'', ''Security''], selectedTopics = [''Networking'', ''Security''],
      questionCount = 5,
      quizData =
        [exampleQuestion ''Q3'' [(''A'', False), (''B'', True), (''D'', False), (''C'', False)],
         exampleQuestion ''Q1'' [(''A'', False), (''C'', False), (''B'', True), (''D'', False)]],
      currentQuestionIndex = 0, userAnswers = [], error = None,
      loadingMessage = ''Generating your custom quiz... This may take a moment.''\<rparr>"
  by (simp add: quizState_def handleGenerateQuiz_def countState_eq generate_three randomized_two
      generateQuizPending_def)

lemma firstAnswered_eq:
  "firstAnswered = quizState\<lparr>userAnswers := [\<lparr>questionIndex = 0, answerIndex = 1\<rparr>]\<rparr>"
  by (simp add: firstAnswered_def handleAnswerSelect_def quizState_eq)

lemma secondQuestion_eq:
  "secondQuestion =
     quizState\<lparr>currentQuestionIndex := 1,
               userAnswers := [\<lparr>questionIndex = 0, answerIndex = 1\<rparr>]\<rparr>"
  by (simp add: secondQuestion_def handleNextQuestion_def firstAnswered_eq quizState_eq)

lemma secondAnswered_eq:
  "secondAnswered =
     quizState\<lparr>currentQuestionIndex := 1,
               userAnswers := [\<lparr>questionIndex = 0, answerIndex = 1\<rparr>,
                               \<lparr>questionIndex = 1, answerIndex = 3\<rparr>]\<rparr>"
  by (simp add: secondAnswered_def handleAnswerSelect_def secondQuestion_eq quizState_eq)

lemma reviewState_eq:
  "reviewState =
     quizState\<lparr>appState := REVIEW, currentQuestionIndex := 1,
               userAnswers := [\<lparr>questionIndex = 0, answerIndex = 1\<rparr>,
                               \<lparr>questionIndex = 1, answerIndex = 3\<rparr>]\<rparr>"
  by (simp add: reviewState_def handleNextQuestion_def secondAnswered_eq quizState_eq)

lemma reachable_readyState: "reachable readyState"
  unfolding readyState_def
  by (rule r_fileChange[OF r_init]) (simp add: initialState_def)

lemma reachable_countState: "reachable countState"
  unfolding countState_def
  by (rule r_questionCount[OF reachable_readyState]) (simp_all add: readyState_eq)

lemma reachable_quizState: "reachable quizState"
  unfolding quizState_def
  by (rule r_generateQuiz[OF reachable_countState]) (simp_all add: countState_eq)

lemma reachable_firstAnswered: "reachable firstAnswered"
proof -
  have "reachable (handleAnswerSelect (currentQuestionIndex quizState) 1 quizState)"
    by (rule r_answerSelect[OF reachable_quizState])
      (simp_all add: quizState_eq exampleQuestion_def)
  then show ?thesis by (simp add: firstAnswered_def quizState_eq)
qed

lemma reachable_secondQuestion: "reachable secondQuestion"
  unfolding secondQuestion_def
  by (rule r_nextQuestion[OF reachable_firstAnswered])
    (simp_all add: firstAnswered_eq quizState_eq)

lemma reachable_secondAnswered: "reachable secondAnswered"
proof -
  have "reachable (handleAnswerSelect (currentQuestionIndex secondQuestion) 3 secondQuestion)"
    by (rule r_answerSelect[OF reachable_secondQuestion])
      (simp_all add: secondQuestion_eq quizState_eq exampleQuestion_def)
  then show ?thesis by (simp add: secondAnswered_def secondQuestion_eq quizState_eq)
qed

lemma reachable_reviewState: "reachable reviewState"
  unfolding reviewState_def
  by (rule r_nextQuestion[OF reachable_secondAnswered])
    (simp_all add: secondAnswered_eq quizState_eq)

section \<open>Quiz generation\<close>

text \<open>
  C1 (as amended). When both phases succeed and the generation phase returns the array
  \<open>returned\<close>, \<open>generateQuizQuestions\<close> returns exactly the questions of \<open>returned\<close> in which
  exactly one answer has \<open>isCorrect = true\<close>, in their order; the others are dropped. The
  result is shorter than \<open>returned\<close> by the number of dropped questions, so it is no longer
  than \<open>returned\<close>, and no longer than the requested count \<open>n\<close> whenever the model returned
  at most \<open>n\<close> questions.
\<close>

theorem generateQuizQuestions_validation:
  assumes "generateContent (searchRequest fileBase64 mimeType' ts) = Inr searchResponse"
    and "sourcesTextOf (groundingChunksOf searchResponse) = Inr sourcesText"
    and "generateContent (generationRequest fileBase64 mimeType' sourcesText n ts)
           = Inr questionGenResponse"
    and "JSON_parse parse (response_text questionGenResponse) = Inr returned"
  shows "case generateQuizQuestions generateContent parse fileBase64 mimeType' ts n of
           Inl e \<Rightarrow> False
         | Inr result \<Rightarrow>
             result = filter (\<lambda>q. length (filter isCorrect (answers q)) = 1) returned
             \<and> length result
                 + length (filter (\<lambda>q. length (filter isCorrect (answers q)) \<noteq> 1) returned)
                 = length returned
             \<and> length result \<le> length returned
             \<and> (length returned \<le> n \<longrightarrow> length result \<le> n)"
proof -
  let ?result = "filter (\<lambda>q. length (filter isCorrect (answers q)) = 1) returned"
  have "filter exactlyOneCorrect returned = ?result"
    by (simp add: exactlyOneCorrect_def[abs_def])
  then have run: "generateQuizQuestions generateContent parse fileBase64 mimeType' ts n = Inr ?result"
    using generateQuizQuestions_success[OF assms] by simp
  have split: "length ?result
      + length (filter (\<lambda>q. length (filter isCorrect (answers q)) \<noteq> 1) returned) = length returned"
    using sum_length_filter_compl[of "\<lambda>q. length (filter isCorrect (answers q)) = 1" returned]
    by simp
  have "length ?result \<le> length returned" by simp
  with run split show ?thesis by auto
qed

text \<open>Ten questions are requested and ten returned, two of them with two correct answers:
  the quiz has the other eight.\<close>

theorem generateQuizQuestions_validation_witness:
  "exampleClient (searchRequest ''JVBERi0='' ''application/pdf'' [''Networking''])
     = Inr searchResponseNoSources
   \<and> sourcesTextOf (groundingChunksOf searchResponseNoSources) = Inr fallbackSourcesText
   \<and> exampleClient
       (generationRequest ''JVBERi0='' ''application/pdf'' fallbackSourcesText 10 [''Networking''])
     = Inr quizResponse
   \<and> JSON_parse parseTen (response_text quizResponse) = Inr tenReturned
   \<and> length tenReturned = 10
   \<and> length (filter (\<lambda>q. length (filter isCorrect (answers q)) = 2) tenReturned) = 2
   \<and> generateQuizQuestions exampleClient parseTen ''JVBERi0='' ''application/pdf''
        [''Networking''] 10
     = Inr [validQuestion ''Q1'', validQuestion ''Q2'', validQuestion ''Q4'', validQuestion ''Q5'',
            validQuestion ''Q6'', validQuestion ''Q8'', validQuestion ''Q9'', validQuestion ''Q10'']
   \<and> length [validQuestion ''Q1'', validQuestion ''Q2'', validQuestion ''Q4'',
              validQuestion ''Q5'', validQuestion ''Q6'', validQuestion ''Q8'',
              validQuestion ''Q9'', validQuestion ''Q10''] = 8"
proof -
  have h1: "exampleClient (searchRequest ''JVBERi0='' ''application/pdf'' [''Networking''])
      = Inr searchResponseNoSources"
    by (simp add: exampleClient_requests)
  have h2: "sourcesTextOf (groundingChunksOf searchResponseNoSources) = Inr fallbackSourcesText"
    by (simp add: noSources sourcesTextOf_Nil)
  have h3: "exampleClient
      (generationRequest ''JVBERi0='' ''application/pdf'' fallbackSourcesText 10 [''Networking''])
      = Inr quizResponse"
    by (simp add: exampleClient_requests)
  have h4: "JSON_parse parseTen (response_text quizResponse) = Inr tenReturned"
    by (simp add: parse_quizResponse)
  have two: "length (filter (\<lambda>q. length (filter isCorrect (answers q)) = 2) tenReturned) = 2"
    by (simp add: tenReturned_def validQuestion_def twoCorrectQuestion_def exampleQuestion_def)
  have kept: "filter (\<lambda>q. length (filter isCorrect (answers q)) = 1) tenReturned
      = [validQuestion ''Q1'', validQuestion ''Q2'', validQuestion ''Q4'', validQuestion ''Q5'',
         validQuestion ''Q6'', validQuestion ''Q8'', validQuestion ''Q9'', validQuestion ''Q10'']"
    by (simp add: tenReturned_def validQuestion_def twoCorrectQuestion_def exampleQuestion_def)
  have "generateQuizQuestions exampleClient parseTen ''JVBERi0='' ''application/pdf''
          [''Networking''] 10
        = Inr (filter (\<lambda>q. length (filter isCorrect (answers q)) = 1) tenReturned)"
    using generateQuizQuestions_validation[OF h1 h2 h3 h4] by (simp split: sum.splits)
  with kept h1 h2 h3 h4 two show ?thesis by (simp add: tenReturned_def)
qed

text \<open>C1 as stated fails: five questions are requested, the model returns six valid ones,
  and all six are returned. The count reaches the model only inside the prompt text;
  nothing in \<open>generateQuizQuestions\<close> compares the length of the array with it.\<close>

theorem generateQuizQuestions_count_counterexample:
  "generateQuizQuestions exampleClient parseSix ''JVBERi0='' ''application/pdf''
     [''Networking''] 5 = Inr sixReturned
   \<and> \<not> length sixReturned \<le> 5"
proof -
  have "filter exactlyOneCorrect sixReturned = sixReturned"
    by (simp add: sixReturned_def validQuestion_one)
  then have "generateQuizQuestions exampleClient parseSix ''JVBERi0='' ''application/pdf''
      [''Networking''] 5 = Inr sixReturned"
    using generateQuizQuestions_success[of exampleClient "''JVBERi0=''" "''application/pdf''"
        "[''Networking'']" searchResponseNoSources fallbackSourcesText 5 quizResponse parseSix
        sixReturned]
    by (simp add: exampleClient_requests noSources sourcesTextOf_Nil parse_quizResponse)
  then show ?thesis by (simp add: sixReturned_def)
qed

text \<open>
  C7. When the search response carries no grounding chunk (no candidates, no grounding
  metadata, no chunk list or an empty one), the sources text is the fixed fallback
  instruction to rely solely on the provided exam guide. The generation request then is
  the document and one text part, the generation prompt built with that instruction, which
  stands in the prompt where the sources are announced. The call goes on: if that request
  is answered with an array, the validated questions are returned.
\<close>

theorem generateQuizQuestions_fallback:
  assumes "generateContent
             \<lparr>model = ''gemini-2.5-pro'',
              parts = [fileToGenerativePart fileBase64 mimeType', TextPart (searchPrompt ts)],
              config = GoogleSearchConfig\<rparr> = Inr searchResponse"
    and "groundingChunksOf searchResponse = []"
    and "generateContent
           \<lparr>model = ''gemini-2.5-pro'',
            parts = [fileToGenerativePart fileBase64 mimeType',
                     TextPart (generationPrompt
                       ''No external sources found. Please rely solely on the provided exam guide.''
                       n ts)],
            config = QuizSchemaConfig\<rparr> = Inr questionGenResponse"
    and "JSON_parse parse (response_text questionGenResponse) = Inr returned"
  shows "sourcesTextOf (groundingChunksOf searchResponse)
           = Inr ''No external sources found. Please rely solely on the provided exam guide.''
    \<and> generationRequest fileBase64 mimeType'
          ''No external sources found. Please rely solely on the provided exam guide.'' n ts
        = \<lparr>model = ''gemini-2.5-pro'',
           parts = [fileToGenerativePart fileBase64 mimeType',
                    TextPart (generationPrompt
                      ''No external sources found. Please rely solely on the provided exam guide.''
                      n ts)],
           config = QuizSchemaConfig\<rparr>
    \<and> (\<exists>pre post.
          generationPrompt
            ''No external sources found. Please rely solely on the provided exam guide.'' n ts
          = pre
            @ ''    2.  Ground your questions and feedback in the following official sources discovered online:''
            @ [CHR 0x0A]
            @ ''        No external sources found. Please rely solely on the provided exam guide.''
            @ [CHR 0x0A]
            @ post)
    \<and> generateQuizQuestions generateContent parse fileBase64 mimeType' ts n
        = Inr (filter exactlyOneCorrect returned)"
proof -
  have src: "sourcesTextOf (groundingChunksOf searchResponse) = Inr fallbackSourcesText"
    using assms(2) by (simp add: sourcesTextOf_Nil)
  have search: "generateContent (searchRequest fileBase64 mimeType' ts) = Inr searchResponse"
    using assms(1) by (simp add: searchRequest_def)
  have request: "generationRequest fileBase64 mimeType' fallbackSourcesText n ts
        = \<lparr>model = ''gemini-2.5-pro'',
           parts = [fileToGenerativePart fileBase64 mimeType',
                    TextPart (generationPrompt fallbackSourcesText n ts)],
           config = QuizSchemaConfig\<rparr>"
    by (simp add: generationRequest_def)
  have gen: "generateContent (generationRequest fileBase64 mimeType' fallbackSourcesText n ts)
      = Inr questionGenResponse"
    using assms(3) by (simp add: generationRequest_def fallbackSourcesText_def)
  have run: "generateQuizQuestions generateContent parse fileBase64 mimeType' ts n
      = Inr (filter exactlyOneCorrect returned)"
    using generateQuizQuestions_success[OF search src gen assms(4)] .
  have "\<exists>pre post. generationPrompt fallbackSourcesText n ts
      = pre
        @ ''    2.  Ground your questions and feedback in the following official sources discovered online:''
        @ newline @ (''        '' @ fallbackSourcesText) @ newline @ post"
    by (rule generationPrompt_sources)
  then have prompt: "\<exists>pre post.
          generationPrompt
            ''No external sources found. Please rely solely on the provided exam guide.'' n ts
          = pre
            @ ''    2.  Ground your questions and feedback in the following official sources discovered online:''
            @ [CHR 0x0A]
            @ ''        No external sources found. Please rely solely on the provided exam guide.''
            @ [CHR 0x0A]
            @ post"
    by (simp add: fallbackSourcesText_def newline_def)
  show ?thesis
    using src request prompt run by (simp add: fallbackSourcesText_def)
qed

theorem generateQuizQuestions_fallback_witness:
  "exampleClient
     \<lparr>model = ''gemini-2.5-pro'',
      parts = [fileToGenerativePart ''JVBERi0='' ''application/pdf'',
               TextPart (searchPrompt [''Networking'', ''Security''])],
      config = GoogleSearchConfig\<rparr> = Inr searchResponseNoSources
   \<and> groundingChunksOf searchResponseNoSources = []
   \<and> exampleClient
       \<lparr>model = ''gemini-2.5-pro'',
        parts = [fileToGenerativePart ''JVBERi0='' ''application/pdf'',
                 TextPart (generationPrompt
                   ''No external sources found. Please rely solely on the provided exam guide.''
                   5 [''Networking'', ''Security''])],
        config = QuizSchemaConfig\<rparr> = Inr quizResponse
   \<and> JSON_parse parseThree (response_text quizResponse) = Inr threeReturned
   \<and> generateQuizQuestions exampleClient parseThree ''JVBERi0='' ''application/pdf''
        [''Networking'', ''Security''] 5 = Inr [validQuestion ''Q1'', validQuestion ''Q3'']"
proof -
  have h1: "exampleClient
     \<lparr>model = ''gemini-2.5-pro'',
      parts = [fileToGenerativePart ''JVBERi0='' ''application/pdf'',
               TextPart (searchPrompt [''Networking'', ''Security''])],
      config = GoogleSearchConfig\<rparr> = Inr searchResponseNoSources"
    by (simp add: exampleClient_def)
  have h2: "groundingChunksOf searchResponseNoSources = []"
    by (rule noSources)
  have h3: "exampleClient
       \<lparr>model = ''gemini-2.5-pro'',
        parts = [fileToGenerativePart ''JVBERi0='' ''application/pdf'',
                 TextPart (generationPrompt
                   ''No external sources found. Please rely solely on the provided exam guide.''
                   5 [''Networking'', ''Security''])],
        config = QuizSchemaConfig\<rparr> = Inr quizResponse"
    by (simp add: exampleClient_def)
  have h4: "JSON_parse parseThree (response_text quizResponse) = Inr threeReturned"
    by (simp add: parse_quizResponse)
  have "filter exactlyOneCorrect threeReturned = [validQuestion ''Q1'', validQuestion ''Q3'']"
    by (simp add: threeReturned_def validQuestion_one twoCorrectQuestion_two)
  then show ?thesis
    using generateQuizQuestions_fallback[OF h1 h2 h3 h4] h1 h2 h3 h4 by simp
qed

section \<open>Topic extraction\<close>

text \<open>
  C6. Given a response that parses to the object \<open>jsonResponse\<close>: when \<open>isGuide\<close> is false,
  \<open>extractTopicsFromGuide\<close> throws the error with the "not a valid exam guide" message and
  returns no topics, and \<open>handleFileChange\<close>, its caller, shows that message, holds no
  topics and is back in \<open>SETUP\<close>; when \<open>isGuide\<close> is true, the \<open>topics\<close> array is returned,
  and the empty array when the property is missing.
\<close>

theorem extractTopicsFromGuide_isGuide:
  assumes "fileToBase64 selectedFile = Inr b64"
    and "generateContent (topicsRequest b64 (file_type selectedFile)) = Inr response"
    and "JSON_parse parse (response_text response) = Inr jsonResponse"
  shows "(jsonIsGuide jsonResponse = Some False \<longrightarrow>
            extractTopicsFromGuide generateContent parse b64 (file_type selectedFile)
              = Inl (JsError ''The uploaded document does not appear to be a valid exam guide. Please upload a relevant file.'')
            \<and> error (handleFileChange generateContent parse fileToBase64 (Some selectedFile) s)
                = Some ''The uploaded document does not appear to be a valid exam guide. Please upload a relevant file.''
            \<and> topics (handleFileChange generateContent parse fileToBase64 (Some selectedFile) s) = []
            \<and> selectedTopics (handleFileChange generateContent parse fileToBase64 (Some selectedFile) s) = []
            \<and> appState (handleFileChange generateContent parse fileToBase64 (Some selectedFile) s) = SETUP)
       \<and> (jsonIsGuide jsonResponse = Some True \<longrightarrow>
            extractTopicsFromGuide generateContent parse b64 (file_type selectedFile)
              = Inr (case jsonTopics jsonResponse of None \<Rightarrow> [] | Some ts \<Rightarrow> ts))"
proof (intro conjI impI)
  assume notGuide: "jsonIsGuide jsonResponse = Some False"
  then have thrown: "extractTopicsFromGuide generateContent parse b64 (file_type selectedFile)
      = Inl (JsError notAGuideMessage)"
    using assms(2,3) by (simp add: extractTopicsFromGuide_def)
  then show "extractTopicsFromGuide generateContent parse b64 (file_type selectedFile)
      = Inl (JsError ''The uploaded document does not appear to be a valid exam guide. Please upload a relevant file.'')"
    by (simp add: notAGuideMessage_def)
  have caller: "handleFileChange generateContent parse fileToBase64 (Some selectedFile) s
      = fileChangeCatch (JsError notAGuideMessage) (fileChangeRead selectedFile b64 s)"
    using assms(1) thrown by (simp add: handleFileChange_def)
  show "error (handleFileChange generateContent parse fileToBase64 (Some selectedFile) s)
      = Some ''The uploaded document does not appear to be a valid exam guide. Please upload a relevant file.''"
    unfolding caller
    by (simp add: fileChangeCatch_def analysisErrorMessage_def notAGuideMessage_def)
  show "topics (handleFileChange generateContent parse fileToBase64 (Some selectedFile) s) = []"
    unfolding caller
    by (simp add: fileChangeCatch_def fileChangeRead_def fileChangeAnalyzing_def)
  show "selectedTopics (handleFileChange generateContent parse fileToBase64 (Some selectedFile) s) = []"
    unfolding caller
    by (simp add: fileChangeCatch_def fileChangeRead_def fileChangeAnalyzing_def)
  show "appState (handleFileChange generateContent parse fileToBase64 (Some selectedFile) s) = SETUP"
    unfolding caller by (simp add: fileChangeCatch_def)
next
  assume "jsonIsGuide jsonResponse = Some True"
  then show "extractTopicsFromGuide generateContent parse b64 (file_type selectedFile)
      = Inr (case jsonTopics jsonResponse of None \<Rightarrow> [] | Some ts \<Rightarrow> ts)"
    using assms(2,3) by (simp add: extractTopicsFromGuide_def)
qed

text \<open>A document that is not a guide, uploaded in the session that already shows the
  topics of a guide; and the guide itself.\<close>

theorem extractTopicsFromGuide_isGuide_witness:
  "exampleFileToBase64 exampleFile = Inr ''JVBERi0=''
   \<and> exampleClient (topicsRequest ''JVBERi0='' (file_type exampleFile)) = Inr topicsResponse
   \<and> JSON_parse parseNotGuide (response_text topicsResponse) = Inr notGuideJson
   \<and> jsonIsGuide notGuideJson = Some False
   \<and> extractTopicsFromGuide exampleClient parseNotGuide ''JVBERi0='' (file_type exampleFile)
       = Inl (JsError ''The uploaded document does not appear to be a valid exam guide. Please upload a relevant file.'')
   \<and> topics (handleFileChange exampleClient parseNotGuide exampleFileToBase64 (Some exampleFile)
        readyState) = []
   \<and> appState (handleFileChange exampleClient parseNotGuide exampleFileToBase64 (Some exampleFile)
        readyState) = SETUP
   \<and> JSON_parse parseGuide (response_text topicsResponse) = Inr guideJson
   \<and> jsonIsGuide guideJson = Some True
   \<and> extractTopicsFromGuide exampleClient parseGuide ''JVBERi0='' (file_type exampleFile)
       = Inr [''Networking'', ''Security'']"
proof -
  have h1: "exampleFileToBase64 exampleFile = Inr ''JVBERi0=''"
    by (simp add: exampleFileToBase64_def)
  have h2: "exampleClient (topicsRequest ''JVBERi0='' (file_type exampleFile)) = Inr topicsResponse"
    by (simp add: exampleClient_requests)
  have h3: "JSON_parse parseNotGuide (response_text topicsResponse) = Inr notGuideJson"
    by (simp add: parse_topicsResponse)
  have h4: "JSON_parse parseGuide (response_text topicsResponse) = Inr guideJson"
    by (simp add: parse_topicsResponse)
  have no: "jsonIsGuide notGuideJson = Some False" by (simp add: notGuideJson_def)
  have yes: "jsonIsGuide guideJson = Some True" by (simp add: guideJson_def)
  show ?thesis
    using extractTopicsFromGuide_isGuide[where ?fileToBase64.0 = exampleFileToBase64
        and selectedFile = exampleFile and ?b64.0 = "''JVBERi0=''"
        and generateContent = exampleClient and response = topicsResponse
        and parse = parseNotGuide and jsonResponse = notGuideJson and s = readyState]
      extractTopicsFromGuide_isGuide[where ?fileToBase64.0 = exampleFileToBase64
        and selectedFile = exampleFile and ?b64.0 = "''JVBERi0=''"
        and generateContent = exampleClient and response = topicsResponse
        and parse = parseGuide and jsonResponse = guideJson and s = readyState]
      h1 h2 h3 h4 no yes
    by (simp add: guideJson_def)
qed

section \<open>Generating the quiz from the session\<close>



text \<open>
  C5 (as amended). When a request of either phase is rejected, or the text of the
  generation response does not parse, with the thrown value \<open>err\<close>, then
  \<open>generateQuizQuestions\<close> throws \<open>err\<close>, and \<open>handleGenerateQuiz\<close> sets the error message
  and returns the session to \<open>SETUP\<close>. The message is the message of \<open>err\<close> when \<open>err\<close> is an
  \<open>Error\<close> object, and the generic "Failed to generate quiz." otherwise. Nothing else of the
  session changes but the loading message: the quiz, the user answers and the question
  index are as before, and nothing of the grounding phase is kept.
\<close>

theorem handleGenerateQuiz_failure:
  assumes "fileData s = Some fd" and "selectedTopics s \<noteq> []"
    and "generateContent (searchRequest (base64 fd) (fileData_mimeType fd) (selectedTopics s))
           = Inl err
         \<or> (\<exists>searchResponse sourcesText.
               generateContent (searchRequest (base64 fd) (fileData_mimeType fd) (selectedTopics s))
                 = Inr searchResponse
               \<and> sourcesTextOf (groundingChunksOf searchResponse) = Inr sourcesText
               \<and> (generateContent
                     (generationRequest (base64 fd) (fileData_mimeType fd) sourcesText
                        (questionCount s) (selectedTopics s)) = Inl err
                   \<or> (\<exists>questionGenResponse.
                         generateContent
                           (generationRequest (base64 fd) (fileData_mimeType fd) sourcesText
                              (questionCount s) (selectedTopics s)) = Inr questionGenResponse
                         \<and> JSON_parse parse (response_text questionGenResponse) = Inl err)))"
  shows "generateQuizQuestions generateContent parse (base64 fd) (fileData_mimeType fd)
           (selectedTopics s) (questionCount s) = Inl err
    \<and> handleGenerateQuiz generateContent parse rt s =
        s\<lparr>error := Some (case err of JsError m \<Rightarrow> m | JsNonError \<Rightarrow> ''Failed to generate quiz.''),
          appState := SETUP,
          loadingMessage := ''Generating your custom quiz... This may take a moment.''\<rparr>"
proof -
  have thrown: "generateQuizQuestions generateContent parse (base64 fd) (fileData_mimeType fd)
           (selectedTopics s) (questionCount s) = Inl err"
    using assms(3) by (auto simp: generateQuizQuestions_def)
  then have "handleGenerateQuiz generateContent parse rt s =
      (generateQuizPending s)\<lparr>error := Some (generationErrorMessage err), appState := SETUP\<rparr>"
    using assms(1,2) by (simp add: handleGenerateQuiz_def)
  then show ?thesis
    using thrown by (simp add: generateQuizPending_def generationErrorMessage_def)
qed

theorem handleGenerateQuiz_failure_witness:
  "fileData countState = Some \<lparr>base64 = ''JVBERi0='', fileData_mimeType = ''application/pdf''\<rparr>
   \<and> selectedTopics countState \<noteq> []
   \<and> failingClient (searchRequest ''JVBERi0='' ''application/pdf'' (selectedTopics countState))
       = Inl (JsError ''fetch failed'')
   \<and> handleGenerateQuiz failingClient parseThree exampleRuntime countState
       = countState\<lparr>error := Some ''fetch failed'', appState := SETUP,
           loadingMessage := ''Generating your custom quiz... This may take a moment.''\<rparr>"
proof -
  have h1: "fileData countState
      = Some \<lparr>base64 = ''JVBERi0='', fileData_mimeType = ''application/pdf''\<rparr>"
    by (simp add: countState_eq)
  have h2: "selectedTopics countState \<noteq> []"
    by (simp add: countState_eq)
  have h3: "failingClient (searchRequest ''JVBERi0='' ''application/pdf'' (selectedTopics countState))
       = Inl (JsError ''fetch failed'')"
    by (simp add: failingClient_def)
  show ?thesis
    using handleGenerateQuiz_failure[of countState
        "\<lparr>base64 = ''JVBERi0='', fileData_mimeType = ''application/pdf''\<rparr>" failingClient
        "JsError ''fetch failed''" parseThree exampleRuntime] h1 h2 h3
    by simp
qed

text \<open>C5 as stated fails: a rejected request and an unparsable response are \<open>Error\<close>
  objects, and the session shows their own messages, not the generic one.\<close>

theorem handleGenerateQuiz_message_counterexample:
  "error (handleGenerateQuiz failingClient parseThree exampleRuntime countState)
     = Some ''fetch failed''
   \<and> error (handleGenerateQuiz exampleClient failingParse exampleRuntime countState)
     = Some ''Unexpected end of JSON input''
   \<and> ''fetch failed'' \<noteq> ''Failed to generate quiz.''
   \<and> ''Unexpected end of JSON input'' \<noteq> ''Failed to generate quiz.''"
proof -
  have "generateQuizQuestions failingClient parseThree ''JVBERi0='' ''application/pdf''
      [''Networking'', ''Security''] 5 = Inl (JsError ''fetch failed'')"
    by (simp add: generateQuizQuestions_def failingClient_def)
  moreover have "generateQuizQuestions exampleClient failingParse ''JVBERi0='' ''application/pdf''
      [''Networking'', ''Security''] 5 = Inl (JsError ''Unexpected end of JSON input'')"
    by (simp add: generateQuizQuestions_def exampleClient_requests noSources sourcesTextOf_Nil
        parse_quizResponse)
  ultimately show ?thesis
    by (simp add: handleGenerateQuiz_def countState_eq generateQuizPending_def
        generationErrorMessage_def)
qed

section \<open>Taking the quiz\<close>

text \<open>
  C8. \<open>handleAnswerSelect\<close> updates in place the user answer of the question when there is
  one, and appends a new one otherwise. It keeps the question indices of the list distinct,
  so that every reachable session holds at most one user answer per question. Selecting
  twice for the same question leaves the length as the first selection made it, and
  selecting the same answer twice changes nothing at all.
\<close>

theorem handleAnswerSelect_upsert:
  "userAnswers (handleAnswerSelect qi ai s) =
     (if qi \<in> questionIndex ` set (userAnswers s)
      then map (\<lambda>a. if questionIndex a = qi then a\<lparr>answerIndex := ai\<rparr> else a) (userAnswers s)
      else userAnswers s @ [\<lparr>questionIndex = qi, answerIndex = ai\<rparr>])
   \<and> (distinct (map questionIndex (userAnswers s)) \<longrightarrow>
        distinct (map questionIndex (userAnswers (handleAnswerSelect qi ai s))))
   \<and> handleAnswerSelect qi ai (handleAnswerSelect qi ai s) = handleAnswerSelect qi ai s
   \<and> length (userAnswers (handleAnswerSelect qi ai' (handleAnswerSelect qi ai s)))
       = length (userAnswers (handleAnswerSelect qi ai s))
   \<and> (reachable s \<longrightarrow> distinct (map questionIndex (userAnswers s)))"
proof (intro conjI impI)
  show "userAnswers (handleAnswerSelect qi ai s) =
     (if qi \<in> questionIndex ` set (userAnswers s)
      then map (\<lambda>a. if questionIndex a = qi then a\<lparr>answerIndex := ai\<rparr> else a) (userAnswers s)
      else userAnswers s @ [\<lparr>questionIndex = qi, answerIndex = ai\<rparr>])"
    by (rule userAnswers_handleAnswerSelect)
next
  assume "distinct (map questionIndex (userAnswers s))"
  then show "distinct (map questionIndex (userAnswers (handleAnswerSelect qi ai s)))"
    by (rule handleAnswerSelect_distinct)
next
  show "handleAnswerSelect qi ai (handleAnswerSelect qi ai s) = handleAnswerSelect qi ai s"
    by (rule handleAnswerSelect_idem)
next
  show "length (userAnswers (handleAnswerSelect qi ai' (handleAnswerSelect qi ai s)))
       = length (userAnswers (handleAnswerSelect qi ai s))"
    by (simp add: handleAnswerSelect_again)
next
  assume "reachable s"
  then show "distinct (map questionIndex (userAnswers s))"
    using reachable_invariant by blast
qed

text \<open>In the example session the first question is answered with choice 1, then again
  with choice 1, then with choice 2: one user answer throughout.\<close>

theorem handleAnswerSelect_upsert_witness:
  "reachable firstAnswered
   \<and> distinct (map questionIndex (userAnswers firstAnswered))
   \<and> userAnswers firstAnswered = [\<lparr>questionIndex = 0, answerIndex = 1\<rparr>]
   \<and> handleAnswerSelect 0 1 firstAnswered = firstAnswered
   \<and> userAnswers (handleAnswerSelect 0 2 firstAnswered) = [\<lparr>questionIndex = 0, answerIndex = 2\<rparr>]
   \<and> userAnswers (handleAnswerSelect 1 3 firstAnswered)
       = [\<lparr>questionIndex = 0, answerIndex = 1\<rparr>, \<lparr>questionIndex = 1, answerIndex = 3\<rparr>]"
proof -
  have r: "reachable firstAnswered" by (rule reachable_firstAnswered)
  have ua: "userAnswers firstAnswered = [\<lparr>questionIndex = 0, answerIndex = 1\<rparr>]"
    by (simp add: firstAnswered_eq)
  have "handleAnswerSelect 0 1 firstAnswered = firstAnswered"
    using handleAnswerSelect_upsert[of 0 1 quizState 1] by (simp add: firstAnswered_def)
  moreover have "distinct (map questionIndex (userAnswers firstAnswered))"
    using handleAnswerSelect_upsert[of 0 1 firstAnswered 1] r by simp
  moreover have "userAnswers (handleAnswerSelect 0 2 firstAnswered)
      = [\<lparr>questionIndex = 0, answerIndex = 2\<rparr>]"
    using handleAnswerSelect_upsert[of 0 2 firstAnswered 2] ua by simp
  moreover have "userAnswers (handleAnswerSelect 1 3 firstAnswered)
      = [\<lparr>questionIndex = 0, answerIndex = 1\<rparr>, \<lparr>questionIndex = 1, answerIndex = 3\<rparr>]"
    using handleAnswerSelect_upsert[of 1 3 firstAnswered 3] ua by simp
  ultimately show ?thesis using r ua by simp
qed

text \<open>
  C9. \<open>handleNextQuestion\<close> adds one to the current question index when a later question
  exists, and moves the session to \<open>REVIEW\<close> when the current question is the last one. In
  a run that starts at the first question of a quiz and answers and advances once per
  choice of \<open>choices\<close>, the session is in \<open>REVIEW\<close> exactly when there have been as many
  choices as questions: it stays in \<open>TAKING_QUIZ\<close> before the last question is answered,
  and the step from it is the only one that enters \<open>REVIEW\<close>.
\<close>

theorem handleNextQuestion_advance:
  "(currentQuestionIndex s + 1 < length (quizData s) \<longrightarrow>
      handleNextQuestion s = s\<lparr>currentQuestionIndex := currentQuestionIndex s + 1\<rparr>)
   \<and> (currentQuestionIndex s + 1 = length (quizData s) \<longrightarrow>
        handleNextQuestion s = s\<lparr>appState := REVIEW\<rparr>)
   \<and> (appState s = TAKING_QUIZ \<and> currentQuestionIndex s = 0 \<and> quizData s \<noteq> []
        \<and> length choices \<le> length (quizData s) \<longrightarrow>
       appState (fold (\<lambda>ai st. handleNextQuestion (handleAnswerSelect (currentQuestionIndex st) ai st))
                   choices s)
         = (if length choices = length (quizData s) then REVIEW else TAKING_QUIZ)
       \<and> currentQuestionIndex
            (fold (\<lambda>ai st. handleNextQuestion (handleAnswerSelect (currentQuestionIndex st) ai st))
               choices s)
         = min (length choices) (length (quizData s) - 1))"
proof (intro conjI impI)
  assume "currentQuestionIndex s + 1 < length (quizData s)"
  then show "handleNextQuestion s = s\<lparr>currentQuestionIndex := currentQuestionIndex s + 1\<rparr>"
    by (simp add: handleNextQuestion_def)
next
  assume "currentQuestionIndex s + 1 = length (quizData s)"
  then have "\<not> int (currentQuestionIndex s) < int (length (quizData s)) - 1" by simp
  then show "handleNextQuestion s = s\<lparr>appState := REVIEW\<rparr>"
    by (simp add: handleNextQuestion_def)
next
  assume run: "appState s = TAKING_QUIZ \<and> currentQuestionIndex s = 0 \<and> quizData s \<noteq> []
        \<and> length choices \<le> length (quizData s)"
  then show "appState (fold (\<lambda>ai st. handleNextQuestion (handleAnswerSelect (currentQuestionIndex st) ai st))
                   choices s)
         = (if length choices = length (quizData s) then REVIEW else TAKING_QUIZ)"
    using quiz_run[of s choices] by simp
  from run show "currentQuestionIndex
            (fold (\<lambda>ai st. handleNextQuestion (handleAnswerSelect (currentQuestionIndex st) ai st))
               choices s)
         = min (length choices) (length (quizData s) - 1)"
    using quiz_run[of s choices] by simp
qed

text \<open>The example quiz has two questions: after the first answer the session is at the
  second question, after the second answer it is in \<open>REVIEW\<close>.\<close>

theorem handleNextQuestion_advance_witness:
  "appState quizState = TAKING_QUIZ \<and> currentQuestionIndex quizState = 0
   \<and> length (quizData quizState) = 2
   \<and> handleNextQuestion firstAnswered = firstAnswered\<lparr>currentQuestionIndex := 1\<rparr>
   \<and> handleNextQuestion secondAnswered = secondAnswered\<lparr>appState := REVIEW\<rparr>
   \<and> appState (fold (\<lambda>ai st. handleNextQuestion (handleAnswerSelect (currentQuestionIndex st) ai st))
                 [1] quizState) = TAKING_QUIZ
   \<and> appState (fold (\<lambda>ai st. handleNextQuestion (handleAnswerSelect (currentQuestionIndex st) ai st))
                 [1, 3] quizState) = REVIEW"
proof -
  have q: "appState quizState = TAKING_QUIZ" "currentQuestionIndex quizState = 0"
    "length (quizData quizState) = 2" "quizData quizState \<noteq> []"
    by (simp_all add: quizState_eq)
  have f: "currentQuestionIndex firstAnswered + 1 < length (quizData firstAnswered)"
    by (simp add: firstAnswered_eq quizState_eq)
  have l: "currentQuestionIndex secondAnswered + 1 = length (quizData secondAnswered)"
    by (simp add: secondAnswered_eq quizState_eq)
  have "handleNextQuestion firstAnswered = firstAnswered\<lparr>currentQuestionIndex := 1\<rparr>"
    using handleNextQuestion_advance[of firstAnswered "[]"] f
    by (simp add: firstAnswered_eq quizState_eq)
  moreover have "handleNextQuestion secondAnswered = secondAnswered\<lparr>appState := REVIEW\<rparr>"
    using handleNextQuestion_advance[of secondAnswered "[]"] l by simp
  moreover have "appState (fold (\<lambda>ai st. handleNextQuestion
        (handleAnswerSelect (currentQuestionIndex st) ai st)) [1] quizState) = TAKING_QUIZ"
    using handleNextQuestion_advance[of quizState "[1]"] q by simp
  moreover have "appState (fold (\<lambda>ai st. handleNextQuestion
        (handleAnswerSelect (currentQuestionIndex st) ai st)) [1, 3] quizState) = REVIEW"
    using handleNextQuestion_advance[of quizState "[1, 3]"] q by simp
  ultimately show ?thesis using q by simp
qed

text \<open>
  C4 (as amended). \<open>handleStartOver\<close> sets the phase, the file, the file data, the topics,
  the selected topics, the quiz, the user answers and the error to their initial values,
  and leaves the current question index, the question count and the loading message as
  they are.
\<close>

theorem handleStartOver_resets:
  "handleStartOver s =
     initialState\<lparr>questionCount := questionCount s,
                  currentQuestionIndex := currentQuestionIndex s,
                  loadingMessage := loadingMessage s\<rparr>"
  by (simp add: handleStartOver_def initialState_def)

text \<open>C4 as stated fails: after the example session, which asked for five questions and
  ended at the second question, starting over keeps the index 1 and the count 5, where
  the initial state has 0 and 10.\<close>

theorem handleStartOver_counterexample:
  "reachable reviewState \<and> appState reviewState = REVIEW
   \<and> currentQuestionIndex (handleStartOver reviewState) = 1
   \<and> currentQuestionIndex initialState = 0
   \<and> questionCount (handleStartOver reviewState) = 5
   \<and> questionCount initialState = 10
   \<and> handleStartOver reviewState \<noteq> initialState"
proof -
  have a: "currentQuestionIndex (handleStartOver reviewState) = 1"
    by (simp add: handleStartOver_def reviewState_eq quizState_eq)
  have b: "currentQuestionIndex initialState = 0"
    by (simp add: initialState_def)
  have "handleStartOver reviewState \<noteq> initialState"
    using a b by auto
  moreover have "questionCount (handleStartOver reviewState) = 5"
    by (simp add: handleStartOver_def reviewState_eq quizState_eq)
  moreover have "questionCount initialState = 10"
    by (simp add: initialState_def)
  moreover have "appState reviewState = REVIEW"
    by (simp add: reviewState_eq)
  ultimately show ?thesis using a b reachable_reviewState by simp
qed

section \<open>The score\<close>

text \<open>
  C2. In every reachable session the score computation returns, its value is the number
  of user answers whose selected answer \<open>quizData[questionIndex].answers[answerIndex]\<close> has
  \<open>isCorrect = true\<close>, and that number is at most the number of questions.
\<close>

theorem score_counts_correct:
  assumes "reachable s"
  shows "score s =
           Inr (length (filter (\<lambda>ua. isCorrect (answers (quizData s ! questionIndex ua)
                                                   ! answerIndex ua)) (userAnswers s)))
    \<and> length (filter (\<lambda>ua. isCorrect (answers (quizData s ! questionIndex ua) ! answerIndex ua))
         (userAnswers s)) \<le> length (quizData s)"
proof -
  have inv: "answersInBounds (quizData s) (userAnswers s)"
    "distinct (map questionIndex (userAnswers s))"
    using reachable_invariant[OF assms] by simp_all
  have "score s =
      Inr (length (filter (\<lambda>ua. isCorrect (answers (quizData s ! questionIndex ua)
                                              ! answerIndex ua)) (userAnswers s)))"
    using scoreReduce_inBounds[OF inv(1), of 0] by (simp add: score_def)
  moreover have "length (userAnswers s) \<le> length (quizData s)"
    using inv by (intro distinct_indices_length) (auto simp: answersInBounds_def)
  moreover have "length (filter (\<lambda>ua. isCorrect (answers (quizData s ! questionIndex ua)
      ! answerIndex ua)) (userAnswers s)) \<le> length (userAnswers s)"
    by simp
  ultimately show ?thesis by linarith
qed

text \<open>At the end of the example session one of the two answers given is the correct
  one.\<close>

theorem score_counts_correct_witness:
  "reachable reviewState \<and> score reviewState = Inr 1 \<and> length (quizData reviewState) = 2
   \<and> length (userAnswers reviewState) = 2"
proof -
  have "length (filter (\<lambda>ua. isCorrect (answers (quizData reviewState ! questionIndex ua)
      ! answerIndex ua)) (userAnswers reviewState)) = 1"
    by (simp add: reviewState_eq quizState_eq exampleQuestion_def)
  then have "score reviewState = Inr 1"
    using score_counts_correct[OF reachable_reviewState] by simp
  then show ?thesis
    using reachable_reviewState by (simp add: reviewState_eq quizState_eq)
qed

text \<open>
  C10. In every reachable session each user answer names a question of the quiz and an
  answer of that question, so the score computation reads inside both arrays and returns
  a number. A successful quiz generation installs the new quiz and empties the user
  answers in one step.
\<close>

theorem userAnswers_in_bounds:
  assumes "reachable s"
  shows "(\<forall>ua \<in> set (userAnswers s).
            questionIndex ua < length (quizData s)
            \<and> answerIndex ua < length (answers (quizData s ! questionIndex ua)))
    \<and> (\<exists>n. score s = Inr n)
    \<and> (fileData s = Some fd \<and> selectedTopics s \<noteq> []
        \<and> generateQuizQuestions generateContent parse (base64 fd) (fileData_mimeType fd)
             (selectedTopics s) (questionCount s) = Inr questions
       \<longrightarrow> quizData (handleGenerateQuiz generateContent parse rt s)
             = randomizedQuestions rt questions
           \<and> userAnswers (handleGenerateQuiz generateContent parse rt s) = [])"
proof -
  have inv: "answersInBounds (quizData s) (userAnswers s)"
    using reachable_invariant[OF assms] by simp
  then have "\<exists>n. score s = Inr n"
    using scoreReduce_inBounds[of "quizData s" "userAnswers s" 0] by (simp add: score_def)
  moreover have "fileData s = Some fd \<and> selectedTopics s \<noteq> []
        \<and> generateQuizQuestions generateContent parse (base64 fd) (fileData_mimeType fd)
             (selectedTopics s) (questionCount s) = Inr questions
       \<longrightarrow> quizData (handleGenerateQuiz generateContent parse rt s)
             = randomizedQuestions rt questions
           \<and> userAnswers (handleGenerateQuiz generateContent parse rt s) = []"
    using handleGenerateQuiz_success[of s fd generateContent parse questions rt] by simp
  ultimately show ?thesis using inv unfolding answersInBounds_def by blast
qed

text \<open>The example session with both questions answered, and the generation step that
  started its quiz.\<close>

theorem userAnswers_in_bounds_witness:
  "reachable secondAnswered
   \<and> userAnswers secondAnswered
       = [\<lparr>questionIndex = 0, answerIndex = 1\<rparr>, \<lparr>questionIndex = 1, answerIndex = 3\<rparr>]
   \<and> length (quizData secondAnswered) = 2
   \<and> length (answers (quizData secondAnswered ! 0)) = 4
   \<and> length (answers (quizData secondAnswered ! 1)) = 4
   \<and> (\<exists>n. score secondAnswered = Inr n)
   \<and> reachable countState
   \<and> userAnswers (handleGenerateQuiz exampleClient parseThree exampleRuntime countState) = []"
proof -
  have h1: "fileData countState
      = Some \<lparr>base64 = ''JVBERi0='', fileData_mimeType = ''application/pdf''\<rparr>"
    by (simp add: countState_eq)
  have h2: "selectedTopics countState \<noteq> []"
    by (simp add: countState_eq)
  have h3: "generateQuizQuestions exampleClient parseThree ''JVBERi0='' ''application/pdf''
        (selectedTopics countState) (questionCount countState)
       = Inr [validQuestion ''Q1'', validQuestion ''Q3'']"
    by (rule generate_three)
  have "userAnswers (handleGenerateQuiz exampleClient parseThree exampleRuntime countState) = []"
    using userAnswers_in_bounds[OF reachable_countState,
        of "\<lparr>base64 = ''JVBERi0='', fileData_mimeType = ''application/pdf''\<rparr>"
        exampleClient parseThree "[validQuestion ''Q1'', validQuestion ''Q3'']" exampleRuntime]
      h1 h2 h3
    by simp
  moreover have "\<exists>n. score secondAnswered = Inr n"
    using userAnswers_in_bounds[OF reachable_secondAnswered] by blast
  ultimately show ?thesis
    using reachable_secondAnswered reachable_countState
    by (simp add: secondAnswered_eq quizState_eq exampleQuestion_def)
qed

end
